theory Spec2Isabelle
  imports Main
begin

section \<open>Errors, log lines and the trace of one invocation\<close>

text \<open>
  A Go \<open>error\<close> value is identified by its message; \<open>nil\<close> is \<open>None\<close> of
  \<open>error option\<close>. \<open>Errorf prefix err\<close> is \<open>fmt.Errorf(prefix + "%v", err)\<close>.
\<close>

datatype error = Error (message: string)

definition Errorf :: "string \<Rightarrow> error \<Rightarrow> error" where
  "Errorf prefix err = Error (prefix @ message err)"

text \<open>The logger's functions that the package calls.\<close>

datatype level = Debugf | Infof | Warnf | Errorf_log

text \<open>
  The kernel surface of \<open>runInSandbox\<close>: \<open>netns.GetCurrentNS()\<close>,
  \<open>unix.Unshare(unix.CLONE_NEWNS)\<close>, \<open>n.Set()\<close>,
  \<open>unix.Mount("", "/", "", MS_PRIVATE|MS_REC, "")\<close> and
  \<open>mount(src, dst)\<close>, which is \<open>syscall.Mount(src, dst, "", MS_BIND|MS_RDONLY, "")\<close>.
\<close>

datatype syscall =
    GetCurrentNS
  | Unshare
  | SetNS
  | RemountRoot
  | BindMount string string

text \<open>
  What one invocation does, in order: the system calls it makes, the lines it logs, and
  each call of the operation \<open>f\<close> handed to \<open>runInSandbox\<close>.
\<close>

datatype event =
    Called syscall
  | Log level string
  | Invoke

text \<open>
  The kernel answers each system call with \<open>nil\<close> or an error. The state threaded
  through the code is the trace so far and the state \<open>inner\<close> that the operation
  itself reads and writes; the operation cannot touch the trace.
\<close>

type_synonym kernel = "syscall \<Rightarrow> error option"

record 's state =
  events :: "event list"
  inner :: 's

type_synonym 's operation = "'s \<Rightarrow> error option \<times> 's"

type_synonym 's step = "'s state \<Rightarrow> error option \<times> 's state"

definition emit :: "event \<Rightarrow> 's state \<Rightarrow> 's state" where
  "emit e st = st\<lparr>events := events st @ [e]\<rparr>"

definition sys :: "kernel \<Rightarrow> syscall \<Rightarrow> 's step" where
  "sys k c st = (k c, emit (Called c) st)"

text \<open>Running an operation on the state, without and with the mark that \<open>f\<close> was called.\<close>

definition direct :: "'s operation \<Rightarrow> 's step" where
  "direct f st = (case f (inner st) of (r, s') \<Rightarrow> (r, st\<lparr>inner := s'\<rparr>))"

definition call :: "'s operation \<Rightarrow> 's step" where
  "call f st = direct f (emit Invoke st)"

text \<open>\<open>if err := m(); err != nil { return fmt.Errorf(prefix + "%v", err) }\<close>\<close>

definition orFail :: "string \<Rightarrow> 's step \<Rightarrow> 's step" where
  "orFail prefix m st =
     (case m st of
        (Some err, st') \<Rightarrow> (Some (Errorf prefix err), st')
      | (None, st') \<Rightarrow> (None, st'))"

text \<open>Statements in sequence: the first error returns.\<close>

fun sequence :: "'s step list \<Rightarrow> 's step" where
  "sequence [] st = (None, st)"
| "sequence (m # ms) st =
     (case m st of
        (Some err, st') \<Rightarrow> (Some err, st')
      | (None, st') \<Rightarrow> sequence ms st')"

section \<open>The namespace sandbox\<close>

text \<open>
  The verb \<open>%q\<close> of package fmt, which quotes and escapes a string, is a library
  function; the sandbox takes it as the parameter \<open>q\<close>.
\<close>

type_synonym quote = "string \<Rightarrow> string"

text \<open>
  At concrete inputs the instance is \<open>plainQuote\<close>: what \<open>%q\<close> prints for a
  string of printable ASCII characters without double quote or backslash, namely the
  string between double quotes.
\<close>

definition plainQuote :: quote where
  "plainQuote s = [CHR 0x22] @ s @ [CHR 0x22]"

definition mount :: "kernel \<Rightarrow> string \<Rightarrow> string \<Rightarrow> 's step" where
  "mount k src dst = sys k (BindMount src dst)"

text \<open>The lock-file step of \<open>setupSandbox\<close>: \<open>if lockFile != "" { ... }\<close>.\<close>

definition lockFileStep :: "quote \<Rightarrow> kernel \<Rightarrow> string \<Rightarrow> 's step" where
  "lockFileStep q k lockFile st =
     (if lockFile \<noteq> []
      then orFail (''bind mount of '' @ q lockFile @ '' failed: '')
             (mount k lockFile ''/run/xtables.lock'') st
      else (None, st))"

definition setupSandbox :: "quote \<Rightarrow> kernel \<Rightarrow> string \<Rightarrow> 's step" where
  "setupSandbox q k lockFile =
     sequence
       [orFail ''failed to unshare to new mount namespace: '' (sys k Unshare),
        orFail ''failed to reset network namespace: '' (sys k SetNS),
        orFail ''failed to remount /: '' (sys k RemountRoot),
        lockFileStep q k lockFile,
        orFail (''bind mount to '' @ q ''/etc/nsswitch.conf'' @ '' failed: '')
          (mount k ''/dev/null'' ''/etc/nsswitch.conf'')]"

text \<open>
  The goroutine of \<open>runInSandbox\<close>, whose one result the caller waits for on the
  channel: the error, and the flag \<open>executed\<close> it leaves behind.
\<close>

definition worker ::
  "quote \<Rightarrow> kernel \<Rightarrow> string \<Rightarrow> 's operation \<Rightarrow> 's state \<Rightarrow> (error option \<times> bool) \<times> 's state" where
  "worker q k lockFile f st =
     (case setupSandbox q k lockFile st of
        (Some err, st') \<Rightarrow> ((Some err, False), st')
      | (None, st') \<Rightarrow> (case call f st' of (r, st'') \<Rightarrow> ((r, True), st'')))"

definition runInSandbox :: "quote \<Rightarrow> kernel \<Rightarrow> string \<Rightarrow> 's operation \<Rightarrow> 's step" where
  "runInSandbox q k lockFile f st =
     (case sys k GetCurrentNS st of
        (Some nerr, st1) \<Rightarrow> (Some (Errorf ''failed to get current namespace: '' nerr), st1)
      | (None, st1) \<Rightarrow>
          (case worker q k lockFile f st1 of
             ((err, executed), st2) \<Rightarrow>
               (case err of
                  Some e \<Rightarrow>
                    if \<not> executed
                    then call f
                           (emit (Log Warnf
                              (''failed to setup execution environment, attempting to continue anyways: ''
                                 @ message e)) st2)
                    else (err, st2)
                | None \<Rightarrow> (err, st2))))"

section \<open>The version gate\<close>

text \<open>
  \<open>utilversion.Version\<close> of k8s.io/apimachinery, for the generic versions that
  \<open>MustParseGeneric\<close> builds: the numeric components, most significant first. Its
  \<open>compareInternal\<close> walks the components the two versions share and returns at the
  first difference; then a longer version is the bigger one unless its extra components
  are all zero. \<open>LessThan\<close> is \<open>compareInternal = -1\<close> and \<open>AtLeast\<close> is
  \<open>compareInternal \<noteq> -1\<close>.
\<close>

datatype Version = Version (components: "nat list")

fun onlyZeros :: "nat list \<Rightarrow> bool" where
  "onlyZeros [] = True"
| "onlyZeros (x # xs) = (x = 0 \<and> onlyZeros xs)"

fun compareComponents :: "nat list \<Rightarrow> nat list \<Rightarrow> int" where
  "compareComponents (x # xs) (y # ys) =
     (if y < x then 1 else if y > x then - 1 else compareComponents xs ys)"
| "compareComponents (x # xs) [] = (if \<not> onlyZeros (x # xs) then 1 else 0)"
| "compareComponents [] (y # ys) = (if \<not> onlyZeros (y # ys) then - 1 else 0)"
| "compareComponents [] [] = 0"

definition compareInternal :: "Version \<Rightarrow> Version \<Rightarrow> int" where
  "compareInternal v other = compareComponents (components v) (components other)"

definition LessThan :: "Version \<Rightarrow> Version \<Rightarrow> bool" where
  "LessThan v other = (compareInternal v other = - 1)"

definition AtLeast :: "Version \<Rightarrow> Version \<Rightarrow> bool" where
  "AtLeast v other = (compareInternal v other \<noteq> - 1)"

text \<open>\<open>utilversion.MustParseGeneric("1.6.2")\<close> and \<open>utilversion.MustParseGeneric("1.8.6")\<close>.\<close>

definition IptablesRestoreLocking :: Version where
  "IptablesRestoreLocking = Version [1, 6, 2]"

definition IptablesLockfileEnv :: Version where
  "IptablesLockfileEnv = Version [1, 8, 6]"

text \<open>
  Modelled from the spec: the type \<open>IptablesVersion\<close> is declared in a file of the
  package that is not among the sources; \<open>executeXTables\<close> reads its field
  \<open>version\<close>. The spec's ToolVersion is "a parsed, comparable semantic version".
\<close>

record IptablesVersion =
  version :: Version

text \<open>
  Modelled from the spec: the method \<open>NoLocks\<close> of \<open>IptablesVersion\<close> is not
  among the sources either. The spec: "NoLocks() -- true when the version predates the
  introduction of the --wait/locking flag (threshold 1.6.2)", the threshold being
  \<open>IptablesRestoreLocking\<close>.
\<close>

definition NoLocks :: "IptablesVersion \<Rightarrow> bool" where
  "NoLocks v = LessThan (version v) IptablesRestoreLocking"

section \<open>Commands and the processes they start\<close>

text \<open>
  The fields of \<open>exec.Cmd\<close> that the package gives a value. \<open>Args\<close> holds the command
  name first, as \<open>exec.Command\<close> builds it. \<open>Env\<close> is a slice that starts \<open>nil\<close>
  and only ever grows by \<open>append\<close>, so the empty list is the unset field (the child
  then inherits the parent's environment). \<open>Stdin\<close> is the content of the reader.
  The field \<open>Path\<close>, which \<open>exec.Command\<close> fills with what it finds for the name
  on the search path, is never read or written by the package and is left to the
  process that starts the command.
\<close>

record Cmd =
  Args :: "string list"
  Env :: "string list"
  Stdin :: string

definition Command :: "string \<Rightarrow> string list \<Rightarrow> Cmd" where
  "Command name arg = \<lparr>Args = name # arg, Env = [], Stdin = []\<rparr>"

text \<open>
  What a child process does: given the command and the world it runs in, what it writes
  to standard output and standard error, the error of \<open>Run\<close> (\<open>nil\<close> on success) and
  the world it leaves.
\<close>

record outcome =
  stdout :: string
  stderr :: string
  exit :: "error option"

type_synonym 'w process = "Cmd \<Rightarrow> 'w \<Rightarrow> outcome \<times> 'w"

text \<open>The world together with the two \<open>bytes.Buffer\<close>s that capture the child's output.\<close>

record 'w io =
  world :: 'w
  stdoutBuf :: string
  stderrBuf :: string

definition Run :: "'w process \<Rightarrow> Cmd \<Rightarrow> 'w io operation" where
  "Run p c s =
     (case p c (world s) of
        (out, w') \<Rightarrow>
          (exit out,
           \<lparr>world = w', stdoutBuf = stdoutBuf s @ stdout out,
            stderrBuf = stderrBuf s @ stderr out\<rparr>))"

definition buffers :: "'w state \<Rightarrow> 'w io state" where
  "buffers st = \<lparr>events = events st, inner = \<lparr>world = inner st, stdoutBuf = [], stderrBuf = []\<rparr>\<rparr>"

definition unbuffer :: "'w io state \<Rightarrow> 'w state" where
  "unbuffer st = \<lparr>events = events st, inner = world (inner st)\<rparr>"

text \<open>\<open>strings.Join\<close>.\<close>

fun Join :: "string list \<Rightarrow> string \<Rightarrow> string" where
  "Join [] sep = []"
| "Join [a] sep = a"
| "Join (a # b # bs) sep = a @ sep @ Join (b # bs) sep"

section \<open>The ambient configuration\<close>

text \<open>
  The store is read through \<open>viper.AllKeys()\<close> and \<open>viper.Get(k)\<close>, which hands out
  a Go value of any dynamic type, the type \<open>'v\<close> here, or \<open>nil\<close>, which is \<open>None\<close>.
  The store is a singleton of the process, so both executors are given it.
\<close>

record 'v viper =
  AllKeys :: "string list"
  Get :: "string \<Rightarrow> 'v option"

text \<open>
  \<open>strings.NewReplacer("-", "_").Replace\<close>: every byte that is a hyphen becomes an
  underscore.
\<close>

definition Replace :: "string \<Rightarrow> string" where
  "Replace s = map (\<lambda>ch. if ch = CHR ''-'' then CHR ''_'' else ch) s"

text \<open>
  \<open>strings.ToUpper\<close> and the verb \<open>%v\<close> of package fmt are library functions: the
  executor takes them as the parameters \<open>upper\<close> and \<open>sprint\<close>. Two instances serve
  at concrete inputs. \<open>asciiToUpper\<close> is what \<open>strings.ToUpper\<close> returns for a string
  of ASCII bytes: the letters a to z become A to Z and every other byte stays.
  \<open>Sprint\<close> is what \<open>%v\<close> prints for a string, a boolean and an integer.
\<close>

definition upperByte :: "char \<Rightarrow> char" where
  "upperByte ch =
     (case map_of (zip ''abcdefghijklmnopqrstuvwxyz'' ''ABCDEFGHIJKLMNOPQRSTUVWXYZ'') ch of
        Some u \<Rightarrow> u
      | None \<Rightarrow> ch)"

definition asciiToUpper :: "string \<Rightarrow> string" where
  "asciiToUpper s = map upperByte s"

datatype any = StringVal string | BoolVal bool | IntVal int

fun showNat :: "nat \<Rightarrow> string" where
  "showNat n =
     (if n < 10 then [''0123456789'' ! n]
      else showNat (n div 10) @ [''0123456789'' ! (n mod 10)])"

definition Sprint :: "any \<Rightarrow> string" where
  "Sprint v =
     (case v of
        StringVal s \<Rightarrow> s
      | BoolVal b \<Rightarrow> (if b then ''true'' else ''false'')
      | IntVal i \<Rightarrow> (if i < 0 then ''-'' @ showNat (nat (- i)) else showNat (nat i)))"

section \<open>The command executor\<close>

text \<open>
  The loop over \<open>viper.AllKeys()\<close> that appends
  \<open>fmt.Sprintf("%s=%v", strings.ToUpper(repl.Replace(k)), v)\<close> to
  \<open>externalCommand.Env\<close>.
\<close>

fun envLoop ::
  "(string \<Rightarrow> string) \<Rightarrow> ('v \<Rightarrow> string) \<Rightarrow> 'v viper \<Rightarrow> string list \<Rightarrow> string list \<Rightarrow> string list" where
  "envLoop upper sprint V [] env = env"
| "envLoop upper sprint V (k # ks) env =
     (case Get V k of
        None \<Rightarrow> envLoop upper sprint V ks env
      | Some v \<Rightarrow> envLoop upper sprint V ks (env @ [upper (Replace k) @ ''='' @ sprint v]))"

text \<open>The \<open>externalCommand\<close> of \<open>execute\<close> as it stands when \<open>Run\<close> is called.\<close>

definition externalCommand ::
  "(string \<Rightarrow> string) \<Rightarrow> ('v \<Rightarrow> string) \<Rightarrow> 'v viper \<Rightarrow> string \<Rightarrow> string \<Rightarrow> string list \<Rightarrow> Cmd" where
  "externalCommand upper sprint V cmd stdin args =
     (let c = (Command cmd args)\<lparr>Stdin := stdin\<rparr>
      in c\<lparr>Env := envLoop upper sprint V (AllKeys V) (Env c)\<rparr>)"

definition execute ::
  "(string \<Rightarrow> string) \<Rightarrow> ('v \<Rightarrow> string) \<Rightarrow> 'v viper \<Rightarrow> 'w process \<Rightarrow>
   string \<Rightarrow> bool \<Rightarrow> string \<Rightarrow> string list \<Rightarrow> 'w step" where
  "execute upper sprint V p cmd ignoreErrors stdin args st =
     (let st1 = emit (Log Infof (''Running command: '' @ cmd @ '' '' @ Join args '' '')) st
      in case direct (Run p (externalCommand upper sprint V cmd stdin args)) (buffers st1) of
           (err, st2) \<Rightarrow>
             (let st3 = (if length (stdoutBuf (inner st2)) \<noteq> 0
                         then emit (Log Infof (''Command output: '' @ [CHR 0x0A] @ stdoutBuf (inner st2))) st2
                         else st2);
                  st4 = (if \<not> ignoreErrors \<and> length (stderrBuf (inner st3)) \<noteq> 0
                         then emit (Log Errorf_log
                                (''Command error output: '' @ [CHR 0x0A] @ stderrBuf (inner st3))) st3
                         else st3)
              in (err, unbuffer st4)))"

section \<open>The XTables runner\<close>

text \<open>
  The receiver of \<open>executeXTables\<close>. The set \<open>XTablesWriteCmds\<close> is declared
  outside the sources; the runner takes its keys as the parameter \<open>W\<close>. The error
  translator \<open>transformToXTablesErrorMessage\<close> is likewise the parameter \<open>tr\<close>, and
  \<open>q\<close> is the quoting that the sandbox needs.
\<close>

record RealDependencies =
  NetworkNamespace :: string
  CNIMode :: bool
  IptablesVersion :: IptablesVersion

definition isWriteCommand :: "string list \<Rightarrow> string \<Rightarrow> bool" where
  "isWriteCommand W cmd = (cmd \<in> set W)"

definition needLock :: "string list \<Rightarrow> RealDependencies \<Rightarrow> string \<Rightarrow> bool" where
  "needLock W r cmd = (isWriteCommand W cmd \<and> \<not> NoLocks (IptablesVersion r))"

text \<open>
  The locals of \<open>executeXTables\<close> when its \<open>if r.CNIMode\<close> statement is done: the
  \<open>mode\<close> string, the command \<open>c\<close>, the \<open>args\<close> (with the wait flag when it was
  appended), the \<open>lockFile\<close> that \<open>run\<close> hands to \<open>runInSandbox\<close>, whether
  \<open>run\<close> is the sandboxed closure, and what was logged on the way.
\<close>

record locals =
  mode :: string
  built :: Cmd
  argsOut :: "string list"
  lockFileArg :: string
  sandboxed :: bool
  logged :: "event list"

definition prepare :: "string list \<Rightarrow> RealDependencies \<Rightarrow> string \<Rightarrow> string list \<Rightarrow> locals" where
  "prepare W r cmd args =
     (if CNIMode r then
        (let c = Command cmd args in
         if needLock W r cmd then
           (if LessThan (version (IptablesVersion r)) IptablesLockfileEnv
            then \<lparr>mode = ''without lock by mount and nss'', built = c, argsOut = args,
                   lockFileArg = NetworkNamespace r, sandboxed = True, logged = []\<rparr>
            else \<lparr>mode = ''without lock by env and nss'',
                   built = c\<lparr>Env := Env c @ [''XTABLES_LOCKFILE='' @ NetworkNamespace r]\<rparr>,
                   argsOut = args, lockFileArg = [], sandboxed = True, logged = []\<rparr>)
         else \<lparr>mode = ''without nss'', built = c, argsOut = args,
                lockFileArg = [], sandboxed = True, logged = []\<rparr>)
      else
        (if needLock W r cmd then
           (let args' = args @ [''--wait=30'']
            in \<lparr>mode = ''with wait lock'', built = Command cmd args', argsOut = args',
                 lockFileArg = [], sandboxed = False,
                 logged = [Log Debugf ''running with lock'']\<rparr>)
         else \<lparr>mode = ''without lock'', built = Command cmd args, argsOut = args,
                lockFileArg = [], sandboxed = False, logged = []\<rparr>))"

text \<open>The closure \<open>run\<close>: \<open>c.Run()\<close>, in CNI mode inside \<open>runInSandbox\<close>.\<close>

definition run :: "quote \<Rightarrow> kernel \<Rightarrow> 'w process \<Rightarrow> locals \<Rightarrow> Cmd \<Rightarrow> 'w io step" where
  "run q k p l c =
     (if sandboxed l then runInSandbox q k (lockFileArg l) (Run p c) else direct (Run p c))"

text \<open>What is logged before the command runs: \<open>Running command (mode): cmd args\<close>.\<close>

definition announce :: "locals \<Rightarrow> string \<Rightarrow> 'w state \<Rightarrow> 'w state" where
  "announce l cmd st =
     emit (Log Infof (''Running command ('' @ mode l @ ''): '' @ cmd @ '' ''
                        @ Join (argsOut l) '' ''))
       (st\<lparr>events := events st @ logged l\<rparr>)"

definition executeXTables ::
  "string list \<Rightarrow> (string \<Rightarrow> error \<Rightarrow> string) \<Rightarrow> quote \<Rightarrow> 'v viper \<Rightarrow> kernel \<Rightarrow> 'w process \<Rightarrow>
   RealDependencies \<Rightarrow> string \<Rightarrow> bool \<Rightarrow> string \<Rightarrow> string list \<Rightarrow> 'w step" where
  "executeXTables W tr q V k p r cmd ignoreErrors stdin args st =
     (let l = prepare W r cmd args;
          st1 = announce l cmd st;
          c = (built l)\<lparr>Stdin := stdin\<rparr>
      in case run q k p l c (buffers st1) of
           (err, st2) \<Rightarrow>
             (let st3 = (if length (stdoutBuf (inner st2)) \<noteq> 0
                         then emit (Log Infof (''Command output: '' @ [CHR 0x0A] @ stdoutBuf (inner st2))) st2
                         else st2);
                  st4 = (if (err \<noteq> None \<or> length (stderrBuf (inner st3)) \<noteq> 0) \<and> \<not> ignoreErrors
                         then (let stderrStr = stderrBuf (inner st3);
                                   stderrStr' = (case err of Some e \<Rightarrow> tr stderrStr e | None \<Rightarrow> stderrStr)
                               in emit (Log Errorf_log (''Command error output: '' @ stderrStr')) st3)
                         else st3)
              in (err, unbuffer st4)))"

section \<open>Predicates of the statements\<close>

text \<open>A stretch of trace that holds system calls only: no log line, no call of the operation.\<close>

definition syscalls :: "event list \<Rightarrow> bool" where
  "syscalls es = list_all (\<lambda>e. case e of Called c \<Rightarrow> True | _ \<Rightarrow> False) es"

text \<open>The system calls of a trace, in order.\<close>

fun calls :: "event list \<Rightarrow> syscall list" where
  "calls [] = []"
| "calls (Called c # es) = c # calls es"
| "calls (e # es) = calls es"

text \<open>
  The system calls that \<open>setupSandbox\<close> makes under a kernel, read off its steps: each
  step is attempted when every step before it succeeded. \<open>sandboxCalls\<close> are those of
  \<open>runInSandbox\<close>, which captures the current namespace first.
\<close>

definition setupCalls :: "kernel \<Rightarrow> string \<Rightarrow> syscall list" where
  "setupCalls k lockFile =
     Unshare #
     (if k Unshare = None then
        SetNS #
        (if k SetNS = None then
           RemountRoot #
           (if k RemountRoot = None then
              (if lockFile = [] then [BindMount ''/dev/null'' ''/etc/nsswitch.conf'']
               else BindMount lockFile ''/run/xtables.lock'' #
                    (if k (BindMount lockFile ''/run/xtables.lock'') = None
                     then [BindMount ''/dev/null'' ''/etc/nsswitch.conf''] else []))
            else [])
         else [])
      else [])"

definition sandboxCalls :: "kernel \<Rightarrow> string \<Rightarrow> syscall list" where
  "sandboxCalls k lockFile =
     GetCurrentNS # (if k GetCurrentNS = None then setupCalls k lockFile else [])"

text \<open>
  Every step of \<open>setupSandbox\<close> succeeds: unshare, namespace re-entry, root remount, the
  lock-file bind mount when a lock file is given, and the bind mount over nsswitch.conf.
\<close>

definition setupOk :: "kernel \<Rightarrow> string \<Rightarrow> bool" where
  "setupOk k lockFile =
     (k Unshare = None \<and> k SetNS = None \<and> k RemountRoot = None \<and>
      (lockFile = [] \<or> k (BindMount lockFile ''/run/xtables.lock'') = None) \<and>
      k (BindMount ''/dev/null'' ''/etc/nsswitch.conf'') = None)"

text \<open>
  The spec's order on versions, "total order (major.minor.patch)": the first three
  components, a missing one counting as zero, compared lexicographically.
\<close>

definition majorMinorPatch :: "Version \<Rightarrow> nat \<times> nat \<times> nat" where
  "majorMinorPatch v =
     (case components v of
        [] \<Rightarrow> (0, 0, 0)
      | [a] \<Rightarrow> (a, 0, 0)
      | [a, b] \<Rightarrow> (a, b, 0)
      | a # b # c # _ \<Rightarrow> (a, b, c))"

fun below :: "nat \<times> nat \<times> nat \<Rightarrow> nat \<times> nat \<times> nat \<Rightarrow> bool" where
  "below (a, b, c) (a', b', c') = (a < a' \<or> (a = a' \<and> (b < b' \<or> (b = b' \<and> c < c'))))"

declare showNat.simps [simp del]


section \<open>The sandbox: traces of the three ways through it\<close>

lemma emit_simps [simp]: "events (emit e st) = events st @ [e]" "inner (emit e st) = inner st"
  by (simp_all add: emit_def)

lemma sys_eq: "sys k c st = (k c, emit (Called c) st)"
  by (simp add: sys_def)

lemma call_eq:
  "call f st = (fst (f (inner st)), \<lparr>events = events st @ [Invoke], inner = snd (f (inner st))\<rparr>)"
  by (cases "f (inner st)") (simp add: call_def direct_def emit_def)

lemma direct_eq:
  "direct f st = (fst (f (inner st)), \<lparr>events = events st, inner = snd (f (inner st))\<rparr>)"
  by (cases "f (inner st)") (simp add: direct_def)

lemma orFail_sys:
  "orFail prefix (sys k c) st = (map_option (Errorf prefix) (k c), emit (Called c) st)"
  by (cases "k c") (simp_all add: orFail_def sys_def)

lemma lockFileStep_eq:
  "lockFileStep q k lockFile st =
     (if lockFile \<noteq> []
      then (map_option (Errorf (''bind mount of '' @ q lockFile @ '' failed: ''))
              (k (BindMount lockFile ''/run/xtables.lock'')),
            emit (Called (BindMount lockFile ''/run/xtables.lock'')) st)
      else (None, st))"
  by (simp add: lockFileStep_def mount_def orFail_sys)

lemma setupSandbox_ok:
  assumes "setupOk k lockFile"
  shows "setupSandbox q k lockFile st =
     (None, st\<lparr>events := events st @ [Called Unshare, Called SetNS, Called RemountRoot] @
          (if lockFile \<noteq> [] then [Called (BindMount lockFile ''/run/xtables.lock'')] else []) @
          [Called (BindMount ''/dev/null'' ''/etc/nsswitch.conf'')]\<rparr>)"
  using assms
  by (auto simp add: setupOk_def setupSandbox_def orFail_sys lockFileStep_eq mount_def emit_def)

lemma setupSandbox_fails:
  assumes "\<not> setupOk k lockFile"
  shows "\<exists>e pre. setupSandbox q k lockFile st = (Some e, st\<lparr>events := events st @ pre\<rparr>) \<and> syscalls pre"
proof (cases "k Unshare")
  case (Some e)
  then have "setupSandbox q k lockFile st =
      (Some (Errorf ''failed to unshare to new mount namespace: '' e),
       st\<lparr>events := events st @ [Called Unshare]\<rparr>)"
    by (simp add: setupSandbox_def orFail_sys emit_def)
  moreover have "syscalls [Called Unshare]" by (simp add: syscalls_def)
  ultimately show ?thesis by blast
next
  case u: None
  show ?thesis
  proof (cases "k SetNS")
    case (Some e)
    with u have "setupSandbox q k lockFile st =
        (Some (Errorf ''failed to reset network namespace: '' e),
         st\<lparr>events := events st @ [Called Unshare, Called SetNS]\<rparr>)"
      by (simp add: setupSandbox_def orFail_sys emit_def)
    moreover have "syscalls [Called Unshare, Called SetNS]" by (simp add: syscalls_def)
    ultimately show ?thesis by blast
  next
    case s: None
    show ?thesis
    proof (cases "k RemountRoot")
      case (Some e)
      with u s have "setupSandbox q k lockFile st =
          (Some (Errorf ''failed to remount /: '' e),
           st\<lparr>events := events st @ [Called Unshare, Called SetNS, Called RemountRoot]\<rparr>)"
        by (simp add: setupSandbox_def orFail_sys emit_def)
      moreover have "syscalls [Called Unshare, Called SetNS, Called RemountRoot]"
        by (simp add: syscalls_def)
      ultimately show ?thesis by blast
    next
      case m: None
      show ?thesis
      proof (cases "lockFile \<noteq> [] \<and> k (BindMount lockFile ''/run/xtables.lock'') \<noteq> None")
        case True
        then obtain e where e: "k (BindMount lockFile ''/run/xtables.lock'') = Some e" by auto
        with True u s m have "setupSandbox q k lockFile st =
            (Some (Errorf (''bind mount of '' @ q lockFile @ '' failed: '') e),
             st\<lparr>events := events st @ [Called Unshare, Called SetNS, Called RemountRoot,
                 Called (BindMount lockFile ''/run/xtables.lock'')]\<rparr>)"
          by (simp add: setupSandbox_def orFail_sys lockFileStep_eq emit_def)
        moreover have "syscalls [Called Unshare, Called SetNS, Called RemountRoot,
                 Called (BindMount lockFile ''/run/xtables.lock'')]"
          by (simp add: syscalls_def)
        ultimately show ?thesis by blast
      next
        case False
        with u s m assms obtain e where e: "k (BindMount ''/dev/null'' ''/etc/nsswitch.conf'') = Some e"
          by (auto simp add: setupOk_def)
        let ?pre = "[Called Unshare, Called SetNS, Called RemountRoot] @
                 (if lockFile \<noteq> [] then [Called (BindMount lockFile ''/run/xtables.lock'')] else []) @
                 [Called (BindMount ''/dev/null'' ''/etc/nsswitch.conf'')]"
        from e u s m False have "setupSandbox q k lockFile st =
            (Some (Errorf (''bind mount to '' @ q ''/etc/nsswitch.conf'' @ '' failed: '') e),
             st\<lparr>events := events st @ ?pre\<rparr>)"
          by (auto simp add: setupSandbox_def orFail_sys lockFileStep_eq mount_def emit_def)
        moreover have "syscalls ?pre"
          by (simp add: syscalls_def)
        ultimately show ?thesis by blast
      qed
    qed
  qed
qed

lemma runInSandbox_fallback:
  assumes "k GetCurrentNS = None" "\<not> setupOk k lockFile"
  shows "\<exists>pre msg.
     runInSandbox q k lockFile f st =
       (fst (f (inner st)),
        \<lparr>events = events st @ [Called GetCurrentNS] @ pre @ [Log Warnf msg, Invoke],
         inner = snd (f (inner st))\<rparr>) \<and> syscalls pre"
proof -
  from setupSandbox_fails [OF assms(2), where q = q and st = "emit (Called GetCurrentNS) st"]
  obtain e pre where
    s: "setupSandbox q k lockFile (emit (Called GetCurrentNS) st) =
          (Some e, (emit (Called GetCurrentNS) st)\<lparr>events := events (emit (Called GetCurrentNS) st) @ pre\<rparr>)"
    and p: "syscalls pre"
    by blast
  have "runInSandbox q k lockFile f st =
       (fst (f (inner st)),
        \<lparr>events = events st @ [Called GetCurrentNS] @ pre @
           [Log Warnf (''failed to setup execution environment, attempting to continue anyways: '' @ message e), Invoke],
         inner = snd (f (inner st))\<rparr>)"
    using assms(1) s by (simp add: runInSandbox_def worker_def sys_eq call_eq)
  with p show ?thesis by blast
qed

lemma runInSandbox_sandboxed:
  assumes "k GetCurrentNS = None" "setupOk k lockFile"
  shows "runInSandbox q k lockFile f st =
       (fst (f (inner st)),
        \<lparr>events = events st @ [Called GetCurrentNS, Called Unshare, Called SetNS, Called RemountRoot] @
          (if lockFile \<noteq> [] then [Called (BindMount lockFile ''/run/xtables.lock'')] else []) @
          [Called (BindMount ''/dev/null'' ''/etc/nsswitch.conf''), Invoke],
         inner = snd (f (inner st))\<rparr>)"
  using assms(1) setupSandbox_ok [OF assms(2), where q = q and st = "emit (Called GetCurrentNS) st"]
  by (cases "fst (f (inner st))") (simp_all add: runInSandbox_def worker_def sys_eq call_eq)

lemma runInSandbox_no_namespace:
  assumes "k GetCurrentNS = Some nerr"
  shows "runInSandbox q k lockFile f st =
       (Some (Errorf ''failed to get current namespace: '' nerr), emit (Called GetCurrentNS) st)"
  using assms by (simp add: runInSandbox_def sys_eq)

section \<open>Claims about the sandbox\<close>

text \<open>
  C1: when the current namespace was captured and the unshare step of the setup fails,
  the operation is called exactly once, on the fallback path after the warning, and
  what it returns (nil or its error) is what runInSandbox returns.
\<close>

theorem runInSandbox_unshare_fails:
  assumes "k GetCurrentNS = None" and "k Unshare = Some e"
  shows "runInSandbox q k lockFile f st =
           (fst (f (inner st)),
            \<lparr>events = events st @
               [Called GetCurrentNS, Called Unshare,
                Log Warnf (''failed to setup execution environment, attempting to continue anyways: ''
                   @ ''failed to unshare to new mount namespace: '' @ message e),
                Invoke],
             inner = snd (f (inner st))\<rparr>)
         \<and> count_list (events (snd (runInSandbox q k lockFile f st))) Invoke
             = Suc (count_list (events st) Invoke)"
proof -
  have "setupSandbox q k lockFile (emit (Called GetCurrentNS) st) =
          (Some (Errorf ''failed to unshare to new mount namespace: '' e),
           emit (Called Unshare) (emit (Called GetCurrentNS) st))"
    using assms(2) by (simp add: setupSandbox_def orFail_sys)
  then have "runInSandbox q k lockFile f st =
           (fst (f (inner st)),
            \<lparr>events = events st @
               [Called GetCurrentNS, Called Unshare,
                Log Warnf (''failed to setup execution environment, attempting to continue anyways: ''
                   @ ''failed to unshare to new mount namespace: '' @ message e),
                Invoke],
             inner = snd (f (inner st))\<rparr>)"
    using assms(1) by (simp add: runInSandbox_def worker_def sys_eq call_eq Errorf_def)
  then show ?thesis by simp
qed

theorem runInSandbox_unshare_fails_witness:
  "runInSandbox plainQuote
     (\<lambda>c. if c = Unshare then Some (Error ''operation not permitted'') else None)
     ''/var/run/netns/pod'' (\<lambda>n::nat. (Some (Error ''exit status 4''), Suc n))
     \<lparr>events = [], inner = 0\<rparr> =
   (Some (Error ''exit status 4''),
    \<lparr>events = [Called GetCurrentNS, Called Unshare,
       Log Warnf ''failed to setup execution environment, attempting to continue anyways: failed to unshare to new mount namespace: operation not permitted'',
       Invoke],
     inner = Suc 0\<rparr>)"
  using runInSandbox_unshare_fails
    [where k = "\<lambda>c. if c = Unshare then Some (Error ''operation not permitted'') else None"
       and e = "Error ''operation not permitted''" and q = plainQuote
       and lockFile = "''/var/run/netns/pod''"
       and f = "\<lambda>n::nat. (Some (Error ''exit status 4''), Suc n)"
       and st = "\<lparr>events = [], inner = 0\<rparr>"]
  by simp

text \<open>
  C2: when every setup step succeeds and the operation returns an error, runInSandbox
  returns that error; the operation was called once, inside the sandbox, and no
  warning was logged (the fallback was not taken).
\<close>

theorem runInSandbox_operation_error:
  assumes "k GetCurrentNS = None" and "setupOk k lockFile" and "fst (f (inner st)) = Some e"
  shows "runInSandbox q k lockFile f st =
           (Some e,
            \<lparr>events = events st @
               [Called GetCurrentNS, Called Unshare, Called SetNS, Called RemountRoot] @
               (if lockFile \<noteq> [] then [Called (BindMount lockFile ''/run/xtables.lock'')] else []) @
               [Called (BindMount ''/dev/null'' ''/etc/nsswitch.conf''), Invoke],
             inner = snd (f (inner st))\<rparr>)
         \<and> count_list (events (snd (runInSandbox q k lockFile f st))) Invoke
             = Suc (count_list (events st) Invoke)"
  using runInSandbox_sandboxed [OF assms(1) assms(2), where q = q and f = f and st = st] assms(3)
  by simp

theorem runInSandbox_operation_error_witness:
  "runInSandbox plainQuote (\<lambda>c. None) ''/var/run/netns/pod''
     (\<lambda>n::nat. (Some (Error ''exit status 4''), Suc n)) \<lparr>events = [], inner = 0\<rparr> =
   (Some (Error ''exit status 4''),
    \<lparr>events = [Called GetCurrentNS, Called Unshare, Called SetNS, Called RemountRoot,
       Called (BindMount ''/var/run/netns/pod'' ''/run/xtables.lock''),
       Called (BindMount ''/dev/null'' ''/etc/nsswitch.conf''), Invoke],
     inner = Suc 0\<rparr>)"
  using runInSandbox_operation_error
    [where k = "\<lambda>c. None" and lockFile = "''/var/run/netns/pod''" and q = plainQuote
       and f = "\<lambda>n::nat. (Some (Error ''exit status 4''), Suc n)"
       and st = "\<lparr>events = [], inner = 0\<rparr>" and e = "Error ''exit status 4''"]
  by (simp add: setupOk_def)

text \<open>
  C3, as the code has it: once the current namespace is captured, a failure of any step
  of the setup (unshare, re-entry, root remount, either bind mount) logs a warning and
  runs the operation directly, once, returning its result. A failure to capture the
  current namespace returns the error "failed to get current namespace: ..." and the
  operation is not run.
\<close>

theorem runInSandbox_setup_failure:
  "(k GetCurrentNS = None \<and>
    (k Unshare \<noteq> None \<or> k SetNS \<noteq> None \<or> k RemountRoot \<noteq> None \<or>
     (lockFile \<noteq> [] \<and> k (BindMount lockFile ''/run/xtables.lock'') \<noteq> None) \<or>
     k (BindMount ''/dev/null'' ''/etc/nsswitch.conf'') \<noteq> None)
    \<longrightarrow> (\<exists>pre msg.
          runInSandbox q k lockFile f st =
            (fst (f (inner st)),
             \<lparr>events = events st @ [Called GetCurrentNS] @ pre @ [Log Warnf msg, Invoke],
              inner = snd (f (inner st))\<rparr>)
          \<and> syscalls pre))
   \<and> (\<forall>nerr. k GetCurrentNS = Some nerr
         \<longrightarrow> runInSandbox q k lockFile f st =
               (Some (Errorf ''failed to get current namespace: '' nerr),
                \<lparr>events = events st @ [Called GetCurrentNS], inner = inner st\<rparr>))"
proof (intro conjI impI allI)
  assume a: "k GetCurrentNS = None \<and>
    (k Unshare \<noteq> None \<or> k SetNS \<noteq> None \<or> k RemountRoot \<noteq> None \<or>
     (lockFile \<noteq> [] \<and> k (BindMount lockFile ''/run/xtables.lock'') \<noteq> None) \<or>
     k (BindMount ''/dev/null'' ''/etc/nsswitch.conf'') \<noteq> None)"
  then have "\<not> setupOk k lockFile" by (auto simp add: setupOk_def)
  with a show "\<exists>pre msg.
          runInSandbox q k lockFile f st =
            (fst (f (inner st)),
             \<lparr>events = events st @ [Called GetCurrentNS] @ pre @ [Log Warnf msg, Invoke],
              inner = snd (f (inner st))\<rparr>)
          \<and> syscalls pre"
    using runInSandbox_fallback [where q = q and k = k and lockFile = lockFile and f = f and st = st] by blast
next
  fix nerr
  assume "k GetCurrentNS = Some nerr"
  then show "runInSandbox q k lockFile f st =
               (Some (Errorf ''failed to get current namespace: '' nerr),
                \<lparr>events = events st @ [Called GetCurrentNS], inner = inner st\<rparr>)"
    by (simp add: runInSandbox_no_namespace emit_def)
qed

theorem runInSandbox_setup_failure_witness:
  "(\<exists>pre msg.
      runInSandbox plainQuote (\<lambda>c. if c = BindMount ''/dev/null'' ''/etc/nsswitch.conf'' then Some (Error ''permission denied'') else None)
        [] (\<lambda>n::nat. (None, Suc n)) \<lparr>events = [], inner = 0\<rparr> =
      (None, \<lparr>events = [Called GetCurrentNS] @ pre @ [Log Warnf msg, Invoke], inner = Suc 0\<rparr>)
      \<and> syscalls pre)
   \<and> runInSandbox plainQuote (\<lambda>c. if c = GetCurrentNS then Some (Error ''permission denied'') else None)
        [] (\<lambda>n::nat. (None, Suc n)) \<lparr>events = [], inner = 0\<rparr> =
      (Some (Error ''failed to get current namespace: permission denied''),
       \<lparr>events = [Called GetCurrentNS], inner = 0\<rparr>)"
  using runInSandbox_setup_failure
    [where k = "\<lambda>c. if c = BindMount ''/dev/null'' ''/etc/nsswitch.conf'' then Some (Error ''permission denied'') else None"
       and lockFile = "[]" and q = plainQuote and f = "\<lambda>n::nat. (None, Suc n)"
       and st = "\<lparr>events = [], inner = 0\<rparr>"]
    runInSandbox_setup_failure
    [where k = "\<lambda>c. if c = GetCurrentNS then Some (Error ''permission denied'') else None"
       and lockFile = "[]" and q = plainQuote and f = "\<lambda>n::nat. (None, Suc n)"
       and st = "\<lparr>events = [], inner = 0\<rparr>"]
  by (simp add: Errorf_def)

text \<open>
  The claim as written fails at the first step it lists: when the current namespace
  cannot be captured, the error is returned, nothing is logged and the operation is
  never called (the trace holds the one system call and the inner state is untouched).
\<close>

theorem runInSandbox_capture_fails_counterexample:
  "runInSandbox plainQuote (\<lambda>c. if c = GetCurrentNS then Some (Error ''permission denied'') else None)
     [] (\<lambda>n::nat. (None, Suc n)) \<lparr>events = [], inner = 0\<rparr> =
   (Some (Error ''failed to get current namespace: permission denied''),
    \<lparr>events = [Called GetCurrentNS], inner = 0\<rparr>)"
  by (simp add: runInSandbox_def sys_eq Errorf_def emit_def)

section \<open>The version gate: the code's comparison is the spec's order\<close>

lemma AtLeast_iff: "AtLeast v w = (\<not> LessThan v w)"
  by (simp add: AtLeast_def LessThan_def)

lemma compareComponents_Nil: "compareComponents xs [] \<noteq> - 1"
  by (cases xs) auto

lemma LessThan_triple:
  assumes "0 < c'"
  shows "LessThan v (Version [a', b', c']) = below (majorMinorPatch v) (a', b', c')"
proof (cases v)
  case (Version cs)
  show ?thesis
  proof (cases cs)
    case Nil
    with Version assms show ?thesis
      by (auto simp add: LessThan_def compareInternal_def majorMinorPatch_def)
  next
    case c1: (Cons a as)
    show ?thesis
    proof (cases as)
      case Nil
      with Version c1 assms show ?thesis
        by (auto simp add: LessThan_def compareInternal_def majorMinorPatch_def)
    next
      case c2: (Cons b bs)
      show ?thesis
      proof (cases bs)
        case Nil
        with Version c1 c2 assms show ?thesis
          by (auto simp add: LessThan_def compareInternal_def majorMinorPatch_def)
      next
        case c3: (Cons c cs')
        with Version c1 c2 assms compareComponents_Nil [of cs'] show ?thesis
          by (auto simp add: LessThan_def compareInternal_def majorMinorPatch_def)
      qed
    qed
  qed
qed

lemma LessThan_RestoreLocking:
  "LessThan v IptablesRestoreLocking = below (majorMinorPatch v) (1, 6, 2)"
  by (simp add: IptablesRestoreLocking_def LessThan_triple del: below.simps)

lemma LessThan_LockfileEnv:
  "LessThan v IptablesLockfileEnv = below (majorMinorPatch v) (1, 8, 6)"
  by (simp add: IptablesLockfileEnv_def LessThan_triple del: below.simps)

section \<open>The runner\<close>

lemma Command_simps [simp]:
  "Args (Command name arg) = name # arg"
  "Env (Command name arg) = []" "Stdin (Command name arg) = []"
  by (simp_all add: Command_def)

lemma Run_eq:
  "Run p c s = (exit (fst (p c (world s))),
     \<lparr>world = snd (p c (world s)), stdoutBuf = stdoutBuf s @ stdout (fst (p c (world s))),
      stderrBuf = stderrBuf s @ stderr (fst (p c (world s)))\<rparr>)"
  by (cases "p c (world s)") (simp add: Run_def)

lemma executeXTables_fst:
  "fst (executeXTables W tr q V k p r cmd ignoreErrors stdin args st) =
   fst (run q k p (prepare W r cmd args) ((built (prepare W r cmd args))\<lparr>Stdin := stdin\<rparr>)
          (buffers (announce (prepare W r cmd args) cmd st)))"
  by (simp add: executeXTables_def Let_def split: prod.splits)

lemma executeXTables_inner:
  "inner (snd (executeXTables W tr q V k p r cmd ignoreErrors stdin args st)) =
   world (inner (snd (run q k p (prepare W r cmd args) ((built (prepare W r cmd args))\<lparr>Stdin := stdin\<rparr>)
          (buffers (announce (prepare W r cmd args) cmd st)))))"
  by (simp add: executeXTables_def Let_def unbuffer_def split: prod.splits)

lemma prepare_host:
  assumes "\<not> CNIMode r"
  shows "prepare W r cmd args =
     (if needLock W r cmd
      then \<lparr>mode = ''with wait lock'', built = Command cmd (args @ [''--wait=30'']),
             argsOut = args @ [''--wait=30''], lockFileArg = [], sandboxed = False,
             logged = [Log Debugf ''running with lock'']\<rparr>
      else \<lparr>mode = ''without lock'', built = Command cmd args, argsOut = args,
             lockFileArg = [], sandboxed = False, logged = []\<rparr>)"
  using assms by (simp add: prepare_def Let_def)

lemma prepare_cni:
  assumes "CNIMode r"
  shows "prepare W r cmd args =
     (if needLock W r cmd then
        (if LessThan (version (IptablesVersion r)) IptablesLockfileEnv
         then \<lparr>mode = ''without lock by mount and nss'', built = Command cmd args, argsOut = args,
                lockFileArg = NetworkNamespace r, sandboxed = True, logged = []\<rparr>
         else \<lparr>mode = ''without lock by env and nss'',
                built = (Command cmd args)\<lparr>Env := [''XTABLES_LOCKFILE='' @ NetworkNamespace r]\<rparr>,
                argsOut = args, lockFileArg = [], sandboxed = True, logged = []\<rparr>)
      else \<lparr>mode = ''without nss'', built = Command cmd args, argsOut = args,
             lockFileArg = [], sandboxed = True, logged = []\<rparr>)"
  using assms by (simp add: prepare_def Let_def)

lemma executeXTables_host_fst:
  assumes "\<not> CNIMode r"
  shows "fst (executeXTables W tr q V k p r cmd ignoreErrors stdin args st) =
         exit (fst (p ((built (prepare W r cmd args))\<lparr>Stdin := stdin\<rparr>) (inner st)))"
  using assms
  by (simp add: executeXTables_fst run_def prepare_host direct_eq Run_eq buffers_def announce_def emit_def)

lemma executeXTables_events:
  assumes "run q k p (prepare W r cmd args) ((built (prepare W r cmd args))\<lparr>Stdin := stdin\<rparr>)
             (buffers (announce (prepare W r cmd args) cmd st)) = (err, st2)"
  shows "events (snd (executeXTables W tr q V k p r cmd ignoreErrors stdin args st)) =
         events st2
         @ (if length (stdoutBuf (inner st2)) \<noteq> 0
            then [Log Infof (''Command output: '' @ [CHR 0x0A] @ stdoutBuf (inner st2))] else [])
         @ (if (err \<noteq> None \<or> length (stderrBuf (inner st2)) \<noteq> 0) \<and> \<not> ignoreErrors
            then [Log Errorf_log (''Command error output: '' @
                    (case err of Some e \<Rightarrow> tr (stderrBuf (inner st2)) e
                     | None \<Rightarrow> stderrBuf (inner st2)))]
            else [])"
  using assms by (simp add: executeXTables_def Let_def unbuffer_def split: option.splits)

lemma executeXTables_ignoreErrors_events:
  "\<exists>extra. events (snd (executeXTables W tr q V k p r cmd False stdin args st)) =
         events (snd (executeXTables W tr q V k p r cmd True stdin args st)) @ extra
       \<and> (extra = [] \<or> (\<exists>s. extra = [Log Errorf_log s]))"
proof (cases "run q k p (prepare W r cmd args) ((built (prepare W r cmd args))\<lparr>Stdin := stdin\<rparr>)
             (buffers (announce (prepare W r cmd args) cmd st))")
  case (Pair err st2)
  show ?thesis
    by (simp add: executeXTables_events [OF Pair])
qed

lemma envLoop_eq:
  "envLoop upper sprint V ks env =
     env @ concat (map (\<lambda>k. case Get V k of None \<Rightarrow> []
                            | Some v \<Rightarrow> [upper (Replace k) @ ''='' @ sprint v]) ks)"
  by (induction ks arbitrary: env) (simp_all split: option.splits)

lemma execute_fst:
  "fst (execute upper sprint V p cmd ignoreErrors stdin args st) =
     exit (fst (p (externalCommand upper sprint V cmd stdin args) (inner st)))"
  by (simp add: execute_def Let_def direct_eq Run_eq buffers_def emit_def split: prod.splits)

lemma execute_inner:
  "inner (snd (execute upper sprint V p cmd ignoreErrors stdin args st)) =
     snd (p (externalCommand upper sprint V cmd stdin args) (inner st))"
  by (simp add: execute_def Let_def direct_eq Run_eq buffers_def unbuffer_def emit_def
        split: prod.splits)


section \<open>What the runner hands to the sandbox and to the child process\<close>

lemma calls_append [simp]: "calls (xs @ ys) = calls xs @ calls ys"
  by (induction xs rule: calls.induct) simp_all

lemma setupSandbox_calls:
  "calls (events (snd (setupSandbox q k lockFile st))) = calls (events st) @ setupCalls k lockFile"
  by (simp add: setupSandbox_def setupCalls_def orFail_sys lockFileStep_eq mount_def
        split: option.splits)

lemma setupSandbox_inner: "inner (snd (setupSandbox q k lockFile st)) = inner st"
  by (simp add: setupSandbox_def orFail_sys lockFileStep_eq mount_def split: option.splits)

lemma runInSandbox_calls:
  "calls (events (snd (runInSandbox q k lockFile f st))) = calls (events st) @ sandboxCalls k lockFile"
proof (cases "k GetCurrentNS")
  case (Some nerr)
  then show ?thesis
    by (simp add: runInSandbox_no_namespace sandboxCalls_def)
next
  case None
  obtain r st' where s: "setupSandbox q k lockFile (emit (Called GetCurrentNS) st) = (r, st')"
    by (cases "setupSandbox q k lockFile (emit (Called GetCurrentNS) st)")
  from setupSandbox_calls [of q k lockFile "emit (Called GetCurrentNS) st"] s
  have c: "calls (events st') = calls (events st) @ GetCurrentNS # setupCalls k lockFile"
    by simp
  from None s c show ?thesis
    by (cases r) (simp_all add: runInSandbox_def worker_def sys_eq call_eq sandboxCalls_def
          split: option.splits)
qed

lemma runInSandbox_captured:
  assumes "k GetCurrentNS = None"
  shows "fst (runInSandbox q k lockFile f st) = fst (f (inner st))
       \<and> inner (snd (runInSandbox q k lockFile f st)) = snd (f (inner st))"
proof (cases "setupOk k lockFile")
  case True
  from runInSandbox_sandboxed [OF assms True, where q = q and f = f and st = st]
  show ?thesis by simp
next
  case False
  from runInSandbox_fallback [OF assms False, where q = q and f = f and st = st]
  obtain pre msg where "runInSandbox q k lockFile f st =
       (fst (f (inner st)),
        \<lparr>events = events st @ [Called GetCurrentNS] @ pre @ [Log Warnf msg, Invoke],
         inner = snd (f (inner st))\<rparr>)"
    by blast
  then show ?thesis by simp
qed

lemma lockMount_sandboxCalls:
  "(BindMount src ''/run/xtables.lock'' \<in> set (sandboxCalls k lockFile)) =
     (lockFile \<noteq> [] \<and> src = lockFile \<and> k GetCurrentNS = None \<and> k Unshare = None \<and>
      k SetNS = None \<and> k RemountRoot = None)"
  by (auto simp add: sandboxCalls_def setupCalls_def)

lemma executeXTables_calls:
  "calls (events (snd (executeXTables W tr q V k p r cmd ignoreErrors stdin args st))) =
   calls (events (snd (run q k p (prepare W r cmd args) ((built (prepare W r cmd args))\<lparr>Stdin := stdin\<rparr>)
          (buffers (announce (prepare W r cmd args) cmd st)))))"
proof (cases "run q k p (prepare W r cmd args) ((built (prepare W r cmd args))\<lparr>Stdin := stdin\<rparr>)
          (buffers (announce (prepare W r cmd args) cmd st))")
  case (Pair err st2)
  show ?thesis
    by (simp add: executeXTables_events [OF Pair] Pair)
qed

lemma announce_calls: "calls (events (buffers (announce l cmd st))) = calls (events st) @ calls (logged l)"
  by (simp add: buffers_def announce_def emit_def)

lemma executeXTables_cni:
  assumes "CNIMode r"
  shows "fst (executeXTables W tr q V k p r cmd ignoreErrors stdin args st) =
           fst (runInSandbox q k (lockFileArg (prepare W r cmd args))
                  (Run p ((built (prepare W r cmd args))\<lparr>Stdin := stdin\<rparr>))
                  (buffers (announce (prepare W r cmd args) cmd st)))"
    and "inner (snd (executeXTables W tr q V k p r cmd ignoreErrors stdin args st)) =
           world (inner (snd (runInSandbox q k (lockFileArg (prepare W r cmd args))
                  (Run p ((built (prepare W r cmd args))\<lparr>Stdin := stdin\<rparr>))
                  (buffers (announce (prepare W r cmd args) cmd st)))))"
    and "calls (events (snd (executeXTables W tr q V k p r cmd ignoreErrors stdin args st))) =
           calls (events st) @ sandboxCalls k (lockFileArg (prepare W r cmd args))"
  using assms
  by (simp_all add: executeXTables_fst executeXTables_inner executeXTables_calls run_def
        runInSandbox_calls announce_calls prepare_cni)

lemma executeXTables_cni_captured:
  assumes "CNIMode r" "k GetCurrentNS = None"
  shows "fst (executeXTables W tr q V k p r cmd ignoreErrors stdin args st) =
           exit (fst (p ((built (prepare W r cmd args))\<lparr>Stdin := stdin\<rparr>) (inner st)))
       \<and> inner (snd (executeXTables W tr q V k p r cmd ignoreErrors stdin args st)) =
           snd (p ((built (prepare W r cmd args))\<lparr>Stdin := stdin\<rparr>) (inner st))"
  using runInSandbox_captured [where k = k and q = q
      and lockFile = "lockFileArg (prepare W r cmd args)"
      and f = "Run p ((built (prepare W r cmd args))\<lparr>Stdin := stdin\<rparr>)"
      and st = "buffers (announce (prepare W r cmd args) cmd st)", OF assms(2)]
  by (simp add: executeXTables_cni(1,2) [OF assms(1)] Run_eq buffers_def announce_def emit_def)

lemma executeXTables_cni_not_captured:
  assumes "CNIMode r" "k GetCurrentNS = Some nerr"
  shows "fst (executeXTables W tr q V k p r cmd ignoreErrors stdin args st) =
           Some (Errorf ''failed to get current namespace: '' nerr)
       \<and> inner (snd (executeXTables W tr q V k p r cmd ignoreErrors stdin args st)) = inner st"
  by (simp add: executeXTables_cni(1,2) [OF assms(1)]
        runInSandbox_no_namespace [where k = k and nerr = nerr, OF assms(2)]
        buffers_def announce_def emit_def)

lemma executeXTables_host_inner:
  assumes "\<not> CNIMode r"
  shows "inner (snd (executeXTables W tr q V k p r cmd ignoreErrors stdin args st)) =
         snd (p ((built (prepare W r cmd args))\<lparr>Stdin := stdin\<rparr>) (inner st))"
  using assms
  by (simp add: executeXTables_inner run_def prepare_host direct_eq Run_eq buffers_def announce_def emit_def)

section \<open>Claims about the version gate and the runner\<close>

text \<open>
  C4, as the code has it: in CNI mode, when a lock is needed, a version at or above
  1.8.6 runs the command with the single environment entry
  XTABLES_LOCKFILE=(pod network namespace) through runInSandbox with an empty lock-file
  override, and a version below 1.8.6 runs it with no environment entry through
  runInSandbox with the pod network namespace as the lock-file override. The system
  calls of the whole run are those of the sandbox for that override, and among them is
  a read-only bind mount over /run/xtables.lock exactly when the override is not empty
  and the steps before that mount succeed; it then mounts the override.
\<close>

theorem executeXTables_cni_lock_strategy:
  assumes "CNIMode r" and "needLock W r cmd"
  shows
   "(\<not> below (majorMinorPatch (version (IptablesVersion r))) (1, 8, 6) \<longrightarrow>
       fst (executeXTables W tr q V k p r cmd ignoreErrors stdin args st) =
         fst (runInSandbox q k []
                (Run p \<lparr>Args = cmd # args,
                         Env = [''XTABLES_LOCKFILE='' @ NetworkNamespace r], Stdin = stdin\<rparr>)
                \<lparr>events = events st @
                   [Log Infof (''Running command (without lock by env and nss): '' @ cmd @ '' ''
                                 @ Join args '' '')],
                 inner = \<lparr>world = inner st, stdoutBuf = [], stderrBuf = []\<rparr>\<rparr>) \<and>
       (k GetCurrentNS = None \<longrightarrow>
          fst (executeXTables W tr q V k p r cmd ignoreErrors stdin args st) =
            exit (fst (p \<lparr>Args = cmd # args,
                           Env = [''XTABLES_LOCKFILE='' @ NetworkNamespace r], Stdin = stdin\<rparr>
                         (inner st))) \<and>
          inner (snd (executeXTables W tr q V k p r cmd ignoreErrors stdin args st)) =
            snd (p \<lparr>Args = cmd # args,
                     Env = [''XTABLES_LOCKFILE='' @ NetworkNamespace r], Stdin = stdin\<rparr>
                   (inner st))) \<and>
       calls (events (snd (executeXTables W tr q V k p r cmd ignoreErrors stdin args st))) =
         calls (events st) @ sandboxCalls k [])
  \<and> (below (majorMinorPatch (version (IptablesVersion r))) (1, 8, 6) \<longrightarrow>
       fst (executeXTables W tr q V k p r cmd ignoreErrors stdin args st) =
         fst (runInSandbox q k (NetworkNamespace r)
                (Run p \<lparr>Args = cmd # args, Env = [], Stdin = stdin\<rparr>)
                \<lparr>events = events st @
                   [Log Infof (''Running command (without lock by mount and nss): '' @ cmd @ '' ''
                                 @ Join args '' '')],
                 inner = \<lparr>world = inner st, stdoutBuf = [], stderrBuf = []\<rparr>\<rparr>) \<and>
       (k GetCurrentNS = None \<longrightarrow>
          fst (executeXTables W tr q V k p r cmd ignoreErrors stdin args st) =
            exit (fst (p \<lparr>Args = cmd # args, Env = [], Stdin = stdin\<rparr> (inner st))) \<and>
          inner (snd (executeXTables W tr q V k p r cmd ignoreErrors stdin args st)) =
            snd (p \<lparr>Args = cmd # args, Env = [], Stdin = stdin\<rparr> (inner st))) \<and>
       calls (events (snd (executeXTables W tr q V k p r cmd ignoreErrors stdin args st))) =
         calls (events st) @ sandboxCalls k (NetworkNamespace r))
  \<and> (BindMount src ''/run/xtables.lock'' \<in> set (sandboxCalls k lockFile)) =
       (lockFile \<noteq> [] \<and> src = lockFile \<and> k GetCurrentNS = None \<and> k Unshare = None \<and>
        k SetNS = None \<and> k RemountRoot = None)"
proof (intro conjI impI)
  assume v: "\<not> below (majorMinorPatch (version (IptablesVersion r))) (1, 8, 6)"
  with assms have l: "prepare W r cmd args =
      \<lparr>mode = ''without lock by env and nss'',
       built = (Command cmd args)\<lparr>Env := [''XTABLES_LOCKFILE='' @ NetworkNamespace r]\<rparr>,
       argsOut = args, lockFileArg = [], sandboxed = True, logged = []\<rparr>"
    by (simp add: prepare_cni LessThan_LockfileEnv del: below.simps)
  have c: "(Command cmd args)\<lparr>Env := [''XTABLES_LOCKFILE='' @ NetworkNamespace r], Stdin := stdin\<rparr>
        = \<lparr>Args = cmd # args, Env = [''XTABLES_LOCKFILE='' @ NetworkNamespace r], Stdin = stdin\<rparr>"
    by (simp add: Command_def)
  show "fst (executeXTables W tr q V k p r cmd ignoreErrors stdin args st) =
         fst (runInSandbox q k []
                (Run p \<lparr>Args = cmd # args,
                         Env = [''XTABLES_LOCKFILE='' @ NetworkNamespace r], Stdin = stdin\<rparr>)
                \<lparr>events = events st @
                   [Log Infof (''Running command (without lock by env and nss): '' @ cmd @ '' ''
                                 @ Join args '' '')],
                 inner = \<lparr>world = inner st, stdoutBuf = [], stderrBuf = []\<rparr>\<rparr>)"
    using executeXTables_cni(1) [OF assms(1), of W tr q V k p cmd ignoreErrors stdin args st]
    by (simp add: l Command_def buffers_def announce_def emit_def)
  show "calls (events (snd (executeXTables W tr q V k p r cmd ignoreErrors stdin args st))) =
         calls (events st) @ sandboxCalls k []"
    using executeXTables_cni(3) [OF assms(1), of W tr q V k p cmd ignoreErrors stdin args st]
    by (simp add: l)
  {
    assume g: "k GetCurrentNS = None"
    from executeXTables_cni_captured
      [where r = r and k = k and W = W and tr = tr and q = q and V = V and p = p and cmd = cmd
         and ignoreErrors = ignoreErrors and stdin = stdin and args = args and st = st,
       OF assms(1) g]
    show "fst (executeXTables W tr q V k p r cmd ignoreErrors stdin args st) =
            exit (fst (p \<lparr>Args = cmd # args,
                           Env = [''XTABLES_LOCKFILE='' @ NetworkNamespace r], Stdin = stdin\<rparr>
                         (inner st)))"
      and "inner (snd (executeXTables W tr q V k p r cmd ignoreErrors stdin args st)) =
            snd (p \<lparr>Args = cmd # args,
                     Env = [''XTABLES_LOCKFILE='' @ NetworkNamespace r], Stdin = stdin\<rparr>
                   (inner st))"
      by (simp_all add: l Command_def)
  }
next
  assume v: "below (majorMinorPatch (version (IptablesVersion r))) (1, 8, 6)"
  with assms have l: "prepare W r cmd args =
      \<lparr>mode = ''without lock by mount and nss'', built = Command cmd args, argsOut = args,
       lockFileArg = NetworkNamespace r, sandboxed = True, logged = []\<rparr>"
    by (simp add: prepare_cni LessThan_LockfileEnv del: below.simps)
  have c: "(Command cmd args)\<lparr>Stdin := stdin\<rparr> = \<lparr>Args = cmd # args, Env = [], Stdin = stdin\<rparr>"
    by (simp add: Command_def)
  show "fst (executeXTables W tr q V k p r cmd ignoreErrors stdin args st) =
         fst (runInSandbox q k (NetworkNamespace r)
                (Run p \<lparr>Args = cmd # args, Env = [], Stdin = stdin\<rparr>)
                \<lparr>events = events st @
                   [Log Infof (''Running command (without lock by mount and nss): '' @ cmd @ '' ''
                                 @ Join args '' '')],
                 inner = \<lparr>world = inner st, stdoutBuf = [], stderrBuf = []\<rparr>\<rparr>)"
    using executeXTables_cni(1) [OF assms(1), of W tr q V k p cmd ignoreErrors stdin args st]
    by (simp add: l Command_def buffers_def announce_def emit_def)
  show "calls (events (snd (executeXTables W tr q V k p r cmd ignoreErrors stdin args st))) =
         calls (events st) @ sandboxCalls k (NetworkNamespace r)"
    using executeXTables_cni(3) [OF assms(1), of W tr q V k p cmd ignoreErrors stdin args st]
    by (simp add: l)
  {
    assume g: "k GetCurrentNS = None"
    from executeXTables_cni_captured
      [where r = r and k = k and W = W and tr = tr and q = q and V = V and p = p and cmd = cmd
         and ignoreErrors = ignoreErrors and stdin = stdin and args = args and st = st,
       OF assms(1) g]
    show "fst (executeXTables W tr q V k p r cmd ignoreErrors stdin args st) =
            exit (fst (p \<lparr>Args = cmd # args, Env = [], Stdin = stdin\<rparr> (inner st)))"
      and "inner (snd (executeXTables W tr q V k p r cmd ignoreErrors stdin args st)) =
            snd (p \<lparr>Args = cmd # args, Env = [], Stdin = stdin\<rparr> (inner st))"
      by (simp_all add: l Command_def)
  }
next
  show "(BindMount src ''/run/xtables.lock'' \<in> set (sandboxCalls k lockFile)) =
       (lockFile \<noteq> [] \<and> src = lockFile \<and> k GetCurrentNS = None \<and> k Unshare = None \<and>
        k SetNS = None \<and> k RemountRoot = None)"
    by (rule lockMount_sandboxCalls)
qed


theorem executeXTables_cni_lock_strategy_witness:
  "inner (snd (executeXTables [''iptables'', ''iptables-restore''] (\<lambda>s e. s) plainQuote
       \<lparr>AllKeys = [''log_level''], Get = (\<lambda>key. Some (StringVal ''debug''))\<rparr> (\<lambda>c. None)
       (\<lambda>c w. (\<lparr>stdout = [], stderr = [], exit = None\<rparr>, w @ [c]))
       \<lparr>NetworkNamespace = ''/var/run/netns/pod'', CNIMode = True,
        IptablesVersion = \<lparr>version = Version [1, 8, 6]\<rparr>\<rparr>
       ''iptables'' False [] [''-A'', ''INPUT''] \<lparr>events = [], inner = []\<rparr>))
     = [\<lparr>Args = [''iptables'', ''-A'', ''INPUT''],
         Env = [''XTABLES_LOCKFILE=/var/run/netns/pod''], Stdin = []\<rparr>]
   \<and> calls (events (snd (executeXTables [''iptables'', ''iptables-restore''] (\<lambda>s e. s) plainQuote
       \<lparr>AllKeys = [''log_level''], Get = (\<lambda>key. Some (StringVal ''debug''))\<rparr> (\<lambda>c. None)
       (\<lambda>c w. (\<lparr>stdout = [], stderr = [], exit = None\<rparr>, w @ [c]))
       \<lparr>NetworkNamespace = ''/var/run/netns/pod'', CNIMode = True,
        IptablesVersion = \<lparr>version = Version [1, 8, 6]\<rparr>\<rparr>
       ''iptables'' False [] [''-A'', ''INPUT''] \<lparr>events = [], inner = []\<rparr>)))
     = [GetCurrentNS, Unshare, SetNS, RemountRoot, BindMount ''/dev/null'' ''/etc/nsswitch.conf'']
   \<and> inner (snd (executeXTables [''iptables'', ''iptables-restore''] (\<lambda>s e. s) plainQuote
       \<lparr>AllKeys = [''log_level''], Get = (\<lambda>key. Some (StringVal ''debug''))\<rparr> (\<lambda>c. None)
       (\<lambda>c w. (\<lparr>stdout = [], stderr = [], exit = None\<rparr>, w @ [c]))
       \<lparr>NetworkNamespace = ''/var/run/netns/pod'', CNIMode = True,
        IptablesVersion = \<lparr>version = Version [1, 8, 5]\<rparr>\<rparr>
       ''iptables'' False [] [''-A'', ''INPUT''] \<lparr>events = [], inner = []\<rparr>))
     = [\<lparr>Args = [''iptables'', ''-A'', ''INPUT''], Env = [], Stdin = []\<rparr>]
   \<and> calls (events (snd (executeXTables [''iptables'', ''iptables-restore''] (\<lambda>s e. s) plainQuote
       \<lparr>AllKeys = [''log_level''], Get = (\<lambda>key. Some (StringVal ''debug''))\<rparr> (\<lambda>c. None)
       (\<lambda>c w. (\<lparr>stdout = [], stderr = [], exit = None\<rparr>, w @ [c]))
       \<lparr>NetworkNamespace = ''/var/run/netns/pod'', CNIMode = True,
        IptablesVersion = \<lparr>version = Version [1, 8, 5]\<rparr>\<rparr>
       ''iptables'' False [] [''-A'', ''INPUT''] \<lparr>events = [], inner = []\<rparr>)))
     = [GetCurrentNS, Unshare, SetNS, RemountRoot,
        BindMount ''/var/run/netns/pod'' ''/run/xtables.lock'',
        BindMount ''/dev/null'' ''/etc/nsswitch.conf'']"
  using executeXTables_cni_lock_strategy
    [where r = "\<lparr>NetworkNamespace = ''/var/run/netns/pod'', CNIMode = True,
                  IptablesVersion = \<lparr>version = Version [1, 8, 6]\<rparr>\<rparr>"
       and W = "[''iptables'', ''iptables-restore'']" and cmd = "''iptables''"
       and args = "[''-A'', ''INPUT'']" and tr = "\<lambda>s e. s" and q = plainQuote
       and V = "\<lparr>AllKeys = [''log_level''], Get = (\<lambda>key. Some (StringVal ''debug''))\<rparr>"
       and k = "\<lambda>c. None"
       and p = "\<lambda>c w. (\<lparr>stdout = [], stderr = [], exit = None\<rparr>, w @ [c])"
       and ignoreErrors = False and stdin = "[]" and st = "\<lparr>events = [], inner = []\<rparr>"
       and src = "''/var/run/netns/pod''" and lockFile = "''/var/run/netns/pod''"]
    executeXTables_cni_lock_strategy
    [where r = "\<lparr>NetworkNamespace = ''/var/run/netns/pod'', CNIMode = True,
                  IptablesVersion = \<lparr>version = Version [1, 8, 5]\<rparr>\<rparr>"
       and W = "[''iptables'', ''iptables-restore'']" and cmd = "''iptables''"
       and args = "[''-A'', ''INPUT'']" and tr = "\<lambda>s e. s" and q = plainQuote
       and V = "\<lparr>AllKeys = [''log_level''], Get = (\<lambda>key. Some (StringVal ''debug''))\<rparr>"
       and k = "\<lambda>c. None"
       and p = "\<lambda>c w. (\<lparr>stdout = [], stderr = [], exit = None\<rparr>, w @ [c])"
       and ignoreErrors = False and stdin = "[]" and st = "\<lparr>events = [], inner = []\<rparr>"
       and src = "''/var/run/netns/pod''" and lockFile = "''/var/run/netns/pod''"]
  by (simp add: needLock_def isWriteCommand_def NoLocks_def LessThan_RestoreLocking
        majorMinorPatch_def sandboxCalls_def setupCalls_def)

text \<open>
  The claim as written fails for an empty pod network namespace identifier: version
  1.8.5, CNI mode, a write command, every system call succeeding. The whole run makes no
  bind mount over /run/xtables.lock.
\<close>

theorem executeXTables_cni_empty_namespace_counterexample:
  "needLock [''iptables'', ''iptables-restore'']
     \<lparr>NetworkNamespace = [], CNIMode = True,
      IptablesVersion = \<lparr>version = Version [1, 8, 5]\<rparr>\<rparr> ''iptables''
   \<and> LessThan (Version [1, 8, 5]) IptablesLockfileEnv
   \<and> executeXTables [''iptables'', ''iptables-restore''] (\<lambda>s e. s) plainQuote
       \<lparr>AllKeys = [], Get = (\<lambda>key. None :: any option)\<rparr> (\<lambda>c. None)
       (\<lambda>c w. (\<lparr>stdout = [], stderr = [], exit = None\<rparr>, Suc w))
       \<lparr>NetworkNamespace = [], CNIMode = True,
        IptablesVersion = \<lparr>version = Version [1, 8, 5]\<rparr>\<rparr>
       ''iptables'' False [] [''-A'', ''INPUT''] \<lparr>events = [], inner = 0\<rparr>
     = (None,
        \<lparr>events =
           [Log Infof ''Running command (without lock by mount and nss): iptables -A INPUT'',
            Called GetCurrentNS, Called Unshare, Called SetNS, Called RemountRoot,
            Called (BindMount ''/dev/null'' ''/etc/nsswitch.conf''), Invoke],
         inner = Suc 0\<rparr>)"
  by (simp add: needLock_def isWriteCommand_def NoLocks_def LessThan_RestoreLocking
        LessThan_LockfileEnv majorMinorPatch_def executeXTables_def prepare_cni run_def
        announce_def buffers_def unbuffer_def emit_def runInSandbox_sandboxed setupOk_def Run_eq)



text \<open>
  C6: NoLocks is true exactly for the versions strictly below 1.6.2 in the order on
  major.minor.patch, and so false for every version at or above 1.6.2.
\<close>

theorem NoLocks_threshold:
  "NoLocks v = below (majorMinorPatch (version v)) (1, 6, 2)
   \<and> NoLocks v = (\<not> AtLeast (version v) IptablesRestoreLocking)"
  by (simp add: NoLocks_def LessThan_RestoreLocking AtLeast_iff del: below.simps)

theorem NoLocks_threshold_witness:
  "NoLocks \<lparr>version = Version [1, 6, 1]\<rparr> \<and> \<not> NoLocks \<lparr>version = Version [1, 6, 2]\<rparr>
   \<and> \<not> NoLocks \<lparr>version = Version [1, 8, 7]\<rparr>"
  using NoLocks_threshold [of "\<lparr>version = Version [1, 6, 1]\<rparr>"]
    NoLocks_threshold [of "\<lparr>version = Version [1, 6, 2]\<rparr>"]
    NoLocks_threshold [of "\<lparr>version = Version [1, 8, 7]\<rparr>"]
  by (simp add: majorMinorPatch_def)



text \<open>
  C8, as the code has it: what executeXTables returns does not depend on ignoreErrors
  or on the error translator, and neither does the world it leaves; turning ignoreErrors
  off adds at most one Errorf line at the end of the log. In host mode, and in CNI mode
  when the current namespace was captured, the command runs exactly once and the value
  returned is its raw error (nil on success). In CNI mode when the current namespace
  cannot be captured, the value returned is the error "failed to get current
  namespace: ..." and the command is not run. What execute returns is the raw error of
  the command it runs.
\<close>

theorem executeXTables_returns_raw_error:
  "fst (executeXTables W tr q V k p r cmd ignoreErrors stdin args st) =
       fst (executeXTables W tr' q V k p r cmd ignoreErrors' stdin args st)
   \<and> inner (snd (executeXTables W tr q V k p r cmd ignoreErrors stdin args st)) =
       inner (snd (executeXTables W tr' q V k p r cmd ignoreErrors' stdin args st))
   \<and> (\<exists>extra. events (snd (executeXTables W tr q V k p r cmd False stdin args st)) =
         events (snd (executeXTables W tr q V k p r cmd True stdin args st)) @ extra
       \<and> (extra = [] \<or> (\<exists>s. extra = [Log Errorf_log s])))
   \<and> (\<not> CNIMode r \<or> k GetCurrentNS = None \<longrightarrow>
        fst (executeXTables W tr q V k p r cmd ignoreErrors stdin args st) =
          exit (fst (p ((built (prepare W r cmd args))\<lparr>Stdin := stdin\<rparr>) (inner st))) \<and>
        inner (snd (executeXTables W tr q V k p r cmd ignoreErrors stdin args st)) =
          snd (p ((built (prepare W r cmd args))\<lparr>Stdin := stdin\<rparr>) (inner st)))
   \<and> (\<forall>nerr. CNIMode r \<and> k GetCurrentNS = Some nerr \<longrightarrow>
        fst (executeXTables W tr q V k p r cmd ignoreErrors stdin args st) =
          Some (Errorf ''failed to get current namespace: '' nerr) \<and>
        inner (snd (executeXTables W tr q V k p r cmd ignoreErrors stdin args st)) = inner st)
   \<and> fst (execute upper sprint V p cmd ignoreErrors stdin args st) =
       exit (fst (p (externalCommand upper sprint V cmd stdin args) (inner st)))"
proof (intro conjI impI allI)
  show "fst (executeXTables W tr q V k p r cmd ignoreErrors stdin args st) =
       fst (executeXTables W tr' q V k p r cmd ignoreErrors' stdin args st)"
    by (simp add: executeXTables_fst)
  show "inner (snd (executeXTables W tr q V k p r cmd ignoreErrors stdin args st)) =
       inner (snd (executeXTables W tr' q V k p r cmd ignoreErrors' stdin args st))"
    by (simp add: executeXTables_inner)
  show "\<exists>extra. events (snd (executeXTables W tr q V k p r cmd False stdin args st)) =
         events (snd (executeXTables W tr q V k p r cmd True stdin args st)) @ extra
       \<and> (extra = [] \<or> (\<exists>s. extra = [Log Errorf_log s]))"
    by (rule executeXTables_ignoreErrors_events)
  show "fst (execute upper sprint V p cmd ignoreErrors stdin args st) =
       exit (fst (p (externalCommand upper sprint V cmd stdin args) (inner st)))"
    by (rule execute_fst)
next
  assume a: "\<not> CNIMode r \<or> k GetCurrentNS = None"
  show "fst (executeXTables W tr q V k p r cmd ignoreErrors stdin args st) =
          exit (fst (p ((built (prepare W r cmd args))\<lparr>Stdin := stdin\<rparr>) (inner st)))"
  proof (cases "CNIMode r")
    case True
    with a have g: "k GetCurrentNS = None" by simp
    from executeXTables_cni_captured
      [where r = r and k = k and W = W and tr = tr and q = q and V = V and p = p and cmd = cmd
         and ignoreErrors = ignoreErrors and stdin = stdin and args = args and st = st,
       OF True g]
    show ?thesis by simp
  next
    case False
    then show ?thesis by (rule executeXTables_host_fst)
  qed
  show "inner (snd (executeXTables W tr q V k p r cmd ignoreErrors stdin args st)) =
          snd (p ((built (prepare W r cmd args))\<lparr>Stdin := stdin\<rparr>) (inner st))"
  proof (cases "CNIMode r")
    case True
    with a have g: "k GetCurrentNS = None" by simp
    from executeXTables_cni_captured
      [where r = r and k = k and W = W and tr = tr and q = q and V = V and p = p and cmd = cmd
         and ignoreErrors = ignoreErrors and stdin = stdin and args = args and st = st,
       OF True g]
    show ?thesis by simp
  next
    case False
    then show ?thesis by (rule executeXTables_host_inner)
  qed
next
  fix nerr
  assume a: "CNIMode r \<and> k GetCurrentNS = Some nerr"
  then have c: "CNIMode r" and g: "k GetCurrentNS = Some nerr" by simp_all
  from executeXTables_cni_not_captured
      [where r = r and k = k and nerr = nerr and W = W and tr = tr and q = q and V = V and p = p
         and cmd = cmd and ignoreErrors = ignoreErrors and stdin = stdin and args = args
         and st = st, OF c g]
  show "fst (executeXTables W tr q V k p r cmd ignoreErrors stdin args st) =
          Some (Errorf ''failed to get current namespace: '' nerr)"
    and "inner (snd (executeXTables W tr q V k p r cmd ignoreErrors stdin args st)) = inner st"
    by simp_all
qed

theorem executeXTables_returns_raw_error_witness:
  "fst (executeXTables [''iptables'', ''iptables-restore''] (\<lambda>s e. ''hint: '' @ s) plainQuote
       \<lparr>AllKeys = [], Get = (\<lambda>key. None :: any option)\<rparr> (\<lambda>c. None)
       (\<lambda>c w. (\<lparr>stdout = [], stderr = ''Chain already exists.'', exit = Some (Error ''exit status 1'')\<rparr>, Suc w))
       \<lparr>NetworkNamespace = [], CNIMode = False,
        IptablesVersion = \<lparr>version = Version [1, 8, 7]\<rparr>\<rparr>
       ''iptables'' True [] [''-N'', ''ISTIO_INBOUND''] \<lparr>events = [], inner = 0\<rparr>)
     = Some (Error ''exit status 1'')
   \<and> fst (executeXTables [''iptables'', ''iptables-restore''] (\<lambda>s e. ''hint: '' @ s) plainQuote
       \<lparr>AllKeys = [], Get = (\<lambda>key. None :: any option)\<rparr> (\<lambda>c. None)
       (\<lambda>c w. (\<lparr>stdout = [], stderr = ''Chain already exists.'', exit = Some (Error ''exit status 1'')\<rparr>, Suc w))
       \<lparr>NetworkNamespace = ''/var/run/netns/pod'', CNIMode = True,
        IptablesVersion = \<lparr>version = Version [1, 8, 7]\<rparr>\<rparr>
       ''iptables'' False [] [''-N'', ''ISTIO_INBOUND''] \<lparr>events = [], inner = 0\<rparr>)
     = Some (Error ''exit status 1'')
   \<and> inner (snd (executeXTables [''iptables'', ''iptables-restore''] (\<lambda>s e. ''hint: '' @ s) plainQuote
       \<lparr>AllKeys = [], Get = (\<lambda>key. None :: any option)\<rparr> (\<lambda>c. None)
       (\<lambda>c w. (\<lparr>stdout = [], stderr = ''Chain already exists.'', exit = Some (Error ''exit status 1'')\<rparr>, Suc w))
       \<lparr>NetworkNamespace = ''/var/run/netns/pod'', CNIMode = True,
        IptablesVersion = \<lparr>version = Version [1, 8, 7]\<rparr>\<rparr>
       ''iptables'' False [] [''-N'', ''ISTIO_INBOUND''] \<lparr>events = [], inner = 0\<rparr>))
     = Suc 0
   \<and> fst (executeXTables [''iptables'', ''iptables-restore''] (\<lambda>s e. ''hint: '' @ s) plainQuote
       \<lparr>AllKeys = [], Get = (\<lambda>key. None :: any option)\<rparr>
       (\<lambda>c. if c = GetCurrentNS then Some (Error ''permission denied'') else None)
       (\<lambda>c w. (\<lparr>stdout = [], stderr = ''Chain already exists.'', exit = Some (Error ''exit status 1'')\<rparr>, Suc w))
       \<lparr>NetworkNamespace = ''/var/run/netns/pod'', CNIMode = True,
        IptablesVersion = \<lparr>version = Version [1, 8, 7]\<rparr>\<rparr>
       ''iptables'' False [] [''-N'', ''ISTIO_INBOUND''] \<lparr>events = [], inner = 0\<rparr>)
     = Some (Error ''failed to get current namespace: permission denied'')"
  using executeXTables_returns_raw_error
    [where W = "[''iptables'', ''iptables-restore'']" and tr = "\<lambda>s e. ''hint: '' @ s"
       and tr' = "\<lambda>s e. ''hint: '' @ s" and q = plainQuote
       and V = "\<lparr>AllKeys = [], Get = (\<lambda>key. None :: any option)\<rparr>" and k = "\<lambda>c. None"
       and p = "\<lambda>c w. (\<lparr>stdout = [], stderr = ''Chain already exists.'', exit = Some (Error ''exit status 1'')\<rparr>, Suc w)"
       and r = "\<lparr>NetworkNamespace = [], CNIMode = False,
                  IptablesVersion = \<lparr>version = Version [1, 8, 7]\<rparr>\<rparr>"
       and cmd = "''iptables''" and ignoreErrors = True and ignoreErrors' = False
       and stdin = "[]" and args = "[''-N'', ''ISTIO_INBOUND'']"
       and st = "\<lparr>events = [], inner = 0\<rparr>" and upper = asciiToUpper and sprint = Sprint,
     THEN conjunct2, THEN conjunct2, THEN conjunct2, THEN conjunct1]
    executeXTables_returns_raw_error
    [where W = "[''iptables'', ''iptables-restore'']" and tr = "\<lambda>s e. ''hint: '' @ s"
       and tr' = "\<lambda>s e. ''hint: '' @ s" and q = plainQuote
       and V = "\<lparr>AllKeys = [], Get = (\<lambda>key. None :: any option)\<rparr>" and k = "\<lambda>c. None"
       and p = "\<lambda>c w. (\<lparr>stdout = [], stderr = ''Chain already exists.'', exit = Some (Error ''exit status 1'')\<rparr>, Suc w)"
       and r = "\<lparr>NetworkNamespace = ''/var/run/netns/pod'', CNIMode = True,
                  IptablesVersion = \<lparr>version = Version [1, 8, 7]\<rparr>\<rparr>"
       and cmd = "''iptables''" and ignoreErrors = False and ignoreErrors' = True
       and stdin = "[]" and args = "[''-N'', ''ISTIO_INBOUND'']"
       and st = "\<lparr>events = [], inner = 0\<rparr>" and upper = asciiToUpper and sprint = Sprint,
     THEN conjunct2, THEN conjunct2, THEN conjunct2, THEN conjunct1]
    executeXTables_returns_raw_error
    [where W = "[''iptables'', ''iptables-restore'']" and tr = "\<lambda>s e. ''hint: '' @ s"
       and tr' = "\<lambda>s e. ''hint: '' @ s" and q = plainQuote
       and V = "\<lparr>AllKeys = [], Get = (\<lambda>key. None :: any option)\<rparr>"
       and k = "\<lambda>c. if c = GetCurrentNS then Some (Error ''permission denied'') else None"
       and p = "\<lambda>c w. (\<lparr>stdout = [], stderr = ''Chain already exists.'', exit = Some (Error ''exit status 1'')\<rparr>, Suc w)"
       and r = "\<lparr>NetworkNamespace = ''/var/run/netns/pod'', CNIMode = True,
                  IptablesVersion = \<lparr>version = Version [1, 8, 7]\<rparr>\<rparr>"
       and cmd = "''iptables''" and ignoreErrors = False and ignoreErrors' = True
       and stdin = "[]" and args = "[''-N'', ''ISTIO_INBOUND'']"
       and st = "\<lparr>events = [], inner = 0\<rparr>" and upper = asciiToUpper and sprint = Sprint,
     THEN conjunct2, THEN conjunct2, THEN conjunct2, THEN conjunct2, THEN conjunct1]
  by (simp add: Errorf_def)

text \<open>
  The claim as written fails in CNI mode when the current namespace cannot be captured:
  the command, which would have succeeded, is never run (the world is untouched), and
  what the caller gets is not the command's error but the error of the capture.
\<close>

theorem executeXTables_capture_error_counterexample:
  "executeXTables [''iptables'', ''iptables-restore''] (\<lambda>s e. s) plainQuote
       \<lparr>AllKeys = [], Get = (\<lambda>key. None :: any option)\<rparr>
       (\<lambda>c. if c = GetCurrentNS then Some (Error ''permission denied'') else None)
       (\<lambda>c w. (\<lparr>stdout = [], stderr = [], exit = None\<rparr>, Suc w))
       \<lparr>NetworkNamespace = ''/var/run/netns/pod'', CNIMode = True,
        IptablesVersion = \<lparr>version = Version [1, 8, 7]\<rparr>\<rparr>
       ''iptables-save'' True [] [''-t'', ''nat''] \<lparr>events = [], inner = 0\<rparr>
     = (Some (Error ''failed to get current namespace: permission denied''),
        \<lparr>events =
           [Log Infof ''Running command (without nss): iptables-save -t nat'',
            Called GetCurrentNS],
         inner = 0\<rparr>)"
  by (simp add: executeXTables_def prepare_cni needLock_def isWriteCommand_def run_def
        announce_def buffers_def unbuffer_def emit_def runInSandbox_def sys_eq Errorf_def)

text \<open>
  C9, as the code has it: the child's environment is, for each key of the store in the
  order of AllKeys whose value is not nil, the entry KEY=value, where KEY is
  strings.ToUpper of the key with every hyphen turned into an underscore (no other
  character is replaced), and value is the value printed with the verb v; a key whose
  value is nil adds nothing. The command that is run is the one carrying this
  environment, and what execute returns is its error.
\<close>

theorem execute_env_injection:
  "Env (externalCommand upper sprint V cmd stdin args) =
     concat (map (\<lambda>key. case Get V key of None \<Rightarrow> []
                     | Some v \<Rightarrow> [upper (Replace key) @ ''='' @ sprint v]) (AllKeys V))
   \<and> Args (externalCommand upper sprint V cmd stdin args) = cmd # args
   \<and> Replace key = map (\<lambda>ch. if ch = CHR ''-'' then CHR ''_'' else ch) key
   \<and> fst (execute upper sprint V p cmd ignoreErrors stdin args st) =
       exit (fst (p (externalCommand upper sprint V cmd stdin args) (inner st)))
   \<and> inner (snd (execute upper sprint V p cmd ignoreErrors stdin args st)) =
       snd (p (externalCommand upper sprint V cmd stdin args) (inner st))"
  by (simp add: externalCommand_def Let_def envLoop_eq execute_fst execute_inner Replace_def)

theorem execute_env_injection_witness:
  "inner (snd (execute asciiToUpper Sprint
          \<lparr>AllKeys = [''cni-conf-name'', ''log_level'', ''kubeconfig''],
           Get = (\<lambda>key. if key = ''cni-conf-name'' then Some (StringVal ''istio-cni'')
                         else if key = ''log_level'' then Some (IntVal 2) else None)\<rparr>
          (\<lambda>c w. (\<lparr>stdout = [], stderr = [], exit = None\<rparr>, w @ [c]))
          ''iptables'' False [] [''-L''] \<lparr>events = [], inner = []\<rparr>))
     = [\<lparr>Args = [''iptables'', ''-L''],
         Env = [''CNI_CONF_NAME=istio-cni'', ''LOG_LEVEL=2''], Stdin = []\<rparr>]"
proof -
  have "externalCommand asciiToUpper Sprint
          \<lparr>AllKeys = [''cni-conf-name'', ''log_level'', ''kubeconfig''],
           Get = (\<lambda>key. if key = ''cni-conf-name'' then Some (StringVal ''istio-cni'')
                         else if key = ''log_level'' then Some (IntVal 2) else None)\<rparr>
          ''iptables'' [] [''-L'']
        = \<lparr>Args = [''iptables'', ''-L''],
           Env = [''CNI_CONF_NAME=istio-cni'', ''LOG_LEVEL=2''], Stdin = []\<rparr>"
    by (simp add: externalCommand_def Let_def Command_def asciiToUpper_def Replace_def
          upperByte_def Sprint_def showNat.simps)
  with execute_env_injection
    [where upper = asciiToUpper and sprint = Sprint
       and V = "\<lparr>AllKeys = [''cni-conf-name'', ''log_level'', ''kubeconfig''],
             Get = (\<lambda>key. if key = ''cni-conf-name'' then Some (StringVal ''istio-cni'')
                           else if key = ''log_level'' then Some (IntVal 2) else None)\<rparr>"
       and p = "\<lambda>c w. (\<lparr>stdout = [], stderr = [], exit = None\<rparr>, w @ [c])"
       and cmd = "''iptables''" and ignoreErrors = False and stdin = "[]" and args = "[''-L'']"
       and st = "\<lparr>events = [], inner = []\<rparr>",
     THEN conjunct2, THEN conjunct2, THEN conjunct2, THEN conjunct2]
  show ?thesis by simp
qed

text \<open>
  The claim as written fails on a key with a dot and on an empty string value: the dot
  stays in the name and the entry is injected with nothing after the equals sign.
\<close>

theorem execute_env_counterexample:
  "Env (externalCommand asciiToUpper Sprint
          \<lparr>AllKeys = [''kube.config''],
           Get = (\<lambda>key. if key = ''kube.config'' then Some (StringVal []) else None)\<rparr>
          ''iptables'' [] [''-L''])
     = [''KUBE.CONFIG='']"
  by (simp add: externalCommand_def Let_def asciiToUpper_def Replace_def upperByte_def Sprint_def)

text \<open>
  C10: in CNI mode the command handed to the child process carries, as its environment,
  the single entry XTABLES_LOCKFILE=(pod network namespace) when a lock is needed and
  the version is not below 1.8.6, and no environment at all otherwise, whatever the
  ambient configuration store holds: when the current namespace was captured the
  process is started once on exactly that command, and when it was not the process is
  not started. The store reaches a child's environment only through the loop of execute.
\<close>

theorem executeXTables_cni_env:
  assumes "CNIMode r"
  shows
   "(k GetCurrentNS = None \<longrightarrow>
       fst (executeXTables W tr q V k p r cmd ignoreErrors stdin args st) =
         exit (fst (p \<lparr>Args = cmd # args,
                        Env = (if needLock W r cmd \<and>
                                  \<not> LessThan (version (IptablesVersion r)) IptablesLockfileEnv
                               then [''XTABLES_LOCKFILE='' @ NetworkNamespace r] else []),
                        Stdin = stdin\<rparr> (inner st))) \<and>
       inner (snd (executeXTables W tr q V k p r cmd ignoreErrors stdin args st)) =
         snd (p \<lparr>Args = cmd # args,
                  Env = (if needLock W r cmd \<and>
                            \<not> LessThan (version (IptablesVersion r)) IptablesLockfileEnv
                         then [''XTABLES_LOCKFILE='' @ NetworkNamespace r] else []),
                  Stdin = stdin\<rparr> (inner st)))
  \<and> (\<forall>nerr. k GetCurrentNS = Some nerr \<longrightarrow>
       fst (executeXTables W tr q V k p r cmd ignoreErrors stdin args st) =
         Some (Errorf ''failed to get current namespace: '' nerr) \<and>
       inner (snd (executeXTables W tr q V k p r cmd ignoreErrors stdin args st)) = inner st)
  \<and> Env (externalCommand upper sprint V cmd stdin args) =
       concat (map (\<lambda>key. case Get V key of None \<Rightarrow> []
                       | Some v \<Rightarrow> [upper (Replace key) @ ''='' @ sprint v]) (AllKeys V))"
proof (intro conjI impI allI)
  have c: "(built (prepare W r cmd args))\<lparr>Stdin := stdin\<rparr> =
        \<lparr>Args = cmd # args,
         Env = (if needLock W r cmd \<and>
                   \<not> LessThan (version (IptablesVersion r)) IptablesLockfileEnv
                then [''XTABLES_LOCKFILE='' @ NetworkNamespace r] else []),
         Stdin = stdin\<rparr>"
    using assms by (simp add: prepare_cni Command_def)
  {
    assume g: "k GetCurrentNS = None"
    from executeXTables_cni_captured
      [where r = r and k = k and W = W and tr = tr and q = q and V = V and p = p and cmd = cmd
         and ignoreErrors = ignoreErrors and stdin = stdin and args = args and st = st,
       OF assms g]
    show "fst (executeXTables W tr q V k p r cmd ignoreErrors stdin args st) =
         exit (fst (p \<lparr>Args = cmd # args,
                        Env = (if needLock W r cmd \<and>
                                  \<not> LessThan (version (IptablesVersion r)) IptablesLockfileEnv
                               then [''XTABLES_LOCKFILE='' @ NetworkNamespace r] else []),
                        Stdin = stdin\<rparr> (inner st)))"
      and "inner (snd (executeXTables W tr q V k p r cmd ignoreErrors stdin args st)) =
         snd (p \<lparr>Args = cmd # args,
                  Env = (if needLock W r cmd \<and>
                            \<not> LessThan (version (IptablesVersion r)) IptablesLockfileEnv
                         then [''XTABLES_LOCKFILE='' @ NetworkNamespace r] else []),
                  Stdin = stdin\<rparr> (inner st))"
      unfolding c by simp_all
  }
  show "Env (externalCommand upper sprint V cmd stdin args) =
       concat (map (\<lambda>key. case Get V key of None \<Rightarrow> []
                       | Some v \<Rightarrow> [upper (Replace key) @ ''='' @ sprint v]) (AllKeys V))"
    by (simp add: externalCommand_def Let_def envLoop_eq)
next
  fix nerr
  assume g: "k GetCurrentNS = Some nerr"
  from executeXTables_cni_not_captured
      [where r = r and k = k and nerr = nerr and W = W and tr = tr and q = q and V = V and p = p
         and cmd = cmd and ignoreErrors = ignoreErrors and stdin = stdin and args = args
         and st = st, OF assms g]
  show "fst (executeXTables W tr q V k p r cmd ignoreErrors stdin args st) =
         Some (Errorf ''failed to get current namespace: '' nerr)"
    and "inner (snd (executeXTables W tr q V k p r cmd ignoreErrors stdin args st)) = inner st"
    by simp_all
qed

theorem executeXTables_cni_env_witness:
  "inner (snd (executeXTables [''iptables'', ''iptables-restore''] (\<lambda>s e. s) plainQuote
       \<lparr>AllKeys = [''log_level''], Get = (\<lambda>key. Some (StringVal ''debug''))\<rparr> (\<lambda>c. None)
       (\<lambda>c w. (\<lparr>stdout = [], stderr = [], exit = None\<rparr>, w @ [c]))
       \<lparr>NetworkNamespace = ''/var/run/netns/pod'', CNIMode = True,
        IptablesVersion = \<lparr>version = Version [1, 8, 7]\<rparr>\<rparr>
       ''iptables'' False [] [''-A'', ''INPUT''] \<lparr>events = [], inner = []\<rparr>))
     = [\<lparr>Args = [''iptables'', ''-A'', ''INPUT''],
         Env = [''XTABLES_LOCKFILE=/var/run/netns/pod''], Stdin = []\<rparr>]
   \<and> inner (snd (executeXTables [''iptables'', ''iptables-restore''] (\<lambda>s e. s) plainQuote
       \<lparr>AllKeys = [''log_level''], Get = (\<lambda>key. Some (StringVal ''debug''))\<rparr> (\<lambda>c. None)
       (\<lambda>c w. (\<lparr>stdout = [], stderr = [], exit = None\<rparr>, w @ [c]))
       \<lparr>NetworkNamespace = ''/var/run/netns/pod'', CNIMode = True,
        IptablesVersion = \<lparr>version = Version [1, 8, 7]\<rparr>\<rparr>
       ''iptables-save'' False [] [] \<lparr>events = [], inner = []\<rparr>))
     = [\<lparr>Args = [''iptables-save''], Env = [], Stdin = []\<rparr>]"
  using executeXTables_cni_env
    [where r = "\<lparr>NetworkNamespace = ''/var/run/netns/pod'', CNIMode = True,
                  IptablesVersion = \<lparr>version = Version [1, 8, 7]\<rparr>\<rparr>"
       and W = "[''iptables'', ''iptables-restore'']" and cmd = "''iptables''"
       and args = "[''-A'', ''INPUT'']" and stdin = "[]" and tr = "\<lambda>s e. s" and q = plainQuote
       and V = "\<lparr>AllKeys = [''log_level''], Get = (\<lambda>key. Some (StringVal ''debug''))\<rparr>"
       and k = "\<lambda>c. None"
       and p = "\<lambda>c w. (\<lparr>stdout = [], stderr = [], exit = None\<rparr>, w @ [c])"
       and ignoreErrors = False and st = "\<lparr>events = [], inner = []\<rparr>"
       and upper = asciiToUpper and sprint = Sprint,
     THEN conjunct1]
    executeXTables_cni_env
    [where r = "\<lparr>NetworkNamespace = ''/var/run/netns/pod'', CNIMode = True,
                  IptablesVersion = \<lparr>version = Version [1, 8, 7]\<rparr>\<rparr>"
       and W = "[''iptables'', ''iptables-restore'']" and cmd = "''iptables-save''"
       and args = "[]" and stdin = "[]" and tr = "\<lambda>s e. s" and q = plainQuote
       and V = "\<lparr>AllKeys = [''log_level''], Get = (\<lambda>key. Some (StringVal ''debug''))\<rparr>"
       and k = "\<lambda>c. None"
       and p = "\<lambda>c w. (\<lparr>stdout = [], stderr = [], exit = None\<rparr>, w @ [c])"
       and ignoreErrors = False and st = "\<lparr>events = [], inner = []\<rparr>"
       and upper = asciiToUpper and sprint = Sprint,
     THEN conjunct1]
  by (simp add: needLock_def isWriteCommand_def NoLocks_def LessThan_RestoreLocking
        LessThan_LockfileEnv majorMinorPatch_def)

end
